theory Spec2Isabelle
  imports Complex_Main "HOL-Library.Sublist"
begin

section \<open>Numbers\<close>

text \<open>
  A JavaScript number is an IEEE 754 double: a finite value, kept here as the rational
  it stands for, one of the two infinities, or \<^verbatim>\<open>NaN\<close>. The two zeros are not told
  apart; no function below divides by a zero that could be negative or prints one.
\<close>

datatype double = Fin rat | PosInf | NegInf | NaN

text \<open>
  Every arithmetic operation on finite doubles is the exact operation followed by
  \<open>rnd\<close>, the rounding to the nearest double with ties going to the even significand.
  \<open>exponent a\<close> is the integer \<open>e\<close> with \<open>2 ^ e \<le> a < 2 ^ (e + 1)\<close> for a positive
  \<open>a\<close>. A double has a significand of 53 bits and an exponent from \<open>-1022\<close> to
  \<open>1023\<close>: below \<open>2 ^ -1022\<close> the doubles are the multiples of \<open>2 ^ -1074\<close>, and what
  rounds to \<open>2 ^ 1024\<close> or more is an infinity.
\<close>

function ilog2 :: "int \<Rightarrow> int" where
  "ilog2 n = (if n < 2 then 0 else 1 + ilog2 (n div 2))"
  by pat_completeness auto
termination
  by (relation "measure nat") auto

declare ilog2.simps [simp del]

definition pow2 :: "int \<Rightarrow> rat" where
  "pow2 e = (if e \<ge> 0 then 2 ^ nat e else 1 / 2 ^ nat (- e))"

definition exponent :: "rat \<Rightarrow> int" where
  "exponent a = (if a \<ge> 1 then ilog2 \<lfloor>a\<rfloor> else - (ilog2 (\<lceil>1 / a\<rceil> - 1) + 1))"

definition round_half_even :: "rat \<Rightarrow> int" where
  "round_half_even q =
     (if q - of_int \<lfloor>q\<rfloor> < 1 / 2 then \<lfloor>q\<rfloor>
      else if 1 / 2 < q - of_int \<lfloor>q\<rfloor> then \<lfloor>q\<rfloor> + 1
      else if even \<lfloor>q\<rfloor> then \<lfloor>q\<rfloor> else \<lfloor>q\<rfloor> + 1)"

definition rnd :: "rat \<Rightarrow> double" where
  "rnd x =
     (if x = 0 then Fin 0
      else let e = max (exponent \<bar>x\<bar>) (- 1022);
               m = round_half_even (\<bar>x\<bar> / pow2 (e - 52))
           in if e > 1023 \<or> (e = 1023 \<and> m \<ge> 9007199254740992)
              then (if x > 0 then PosInf else NegInf)
              else Fin (sgn x * of_int m * pow2 (e - 52)))"

text \<open>The sign of a double: 1, -1, or 0 for a zero and for \<^verbatim>\<open>NaN\<close>.\<close>

fun dsgn :: "double \<Rightarrow> int" where
  "dsgn (Fin a) = (if a > 0 then 1 else if a < 0 then - 1 else 0)"
| "dsgn PosInf = 1"
| "dsgn NegInf = - 1"
| "dsgn NaN = 0"

text \<open>\<^verbatim>\<open>a + b\<close>.\<close>

fun dadd :: "double \<Rightarrow> double \<Rightarrow> double" where
  "dadd (Fin a) (Fin b) = rnd (a + b)"
| "dadd NaN b = NaN"
| "dadd a NaN = NaN"
| "dadd PosInf NegInf = NaN"
| "dadd NegInf PosInf = NaN"
| "dadd PosInf b = PosInf"
| "dadd NegInf b = NegInf"
| "dadd (Fin a) b = b"

text \<open>\<^verbatim>\<open>a * b\<close>; an infinity times a zero is \<^verbatim>\<open>NaN\<close>.\<close>

fun dmul :: "double \<Rightarrow> double \<Rightarrow> double" where
  "dmul (Fin a) (Fin b) = rnd (a * b)"
| "dmul NaN b = NaN"
| "dmul a NaN = NaN"
| "dmul a b = (if dsgn a * dsgn b > 0 then PosInf
               else if dsgn a * dsgn b < 0 then NegInf else NaN)"

text \<open>\<^verbatim>\<open>a > b\<close> and \<^verbatim>\<open>a >= b\<close>; every comparison with \<^verbatim>\<open>NaN\<close> is false.\<close>

fun dgt :: "double \<Rightarrow> double \<Rightarrow> bool" where
  "dgt (Fin a) (Fin b) = (a > b)"
| "dgt NaN b = False"
| "dgt a NaN = False"
| "dgt a PosInf = False"
| "dgt NegInf b = False"
| "dgt PosInf b = True"
| "dgt (Fin a) NegInf = True"

definition dge :: "double \<Rightarrow> double \<Rightarrow> bool" where
  "dge a b = (dgt a b \<or> (a = b \<and> a \<noteq> NaN))"

text \<open>
  \<^verbatim>\<open>Math.round\<close> gives the nearest integer, a tie going up; the result is a double
  again, and an infinity or \<^verbatim>\<open>NaN\<close> is returned as it is.
\<close>

fun Math_round :: "double \<Rightarrow> double" where
  "Math_round (Fin x) = Fin (of_int \<lfloor>x + 1 / 2\<rfloor>)"
| "Math_round d = d"

text \<open>A number is falsy when it is a zero or \<^verbatim>\<open>NaN\<close>.\<close>

definition falsy_number :: "double \<Rightarrow> bool" where
  "falsy_number d = (d = Fin 0 \<or> d = NaN)"

section \<open>Per-task time budget (main entry point)\<close>

text \<open>
  The actor's entry point computes
  \<^verbatim>\<open>Math.round(60 * (((maxPostComments + maxPosts) || 10) * 0.08)) + 600\<close>
  and clamps it when \<^verbatim>\<open>handlePageTimeoutSecs * 60000 >= 0x7FFFFFFF\<close>. The two inputs are
  numbers taken from the input object. The source checks that \<^verbatim>\<open>maxPostComments\<close> is
  finite and does not check \<^verbatim>\<open>maxPosts\<close>; nothing rejects a negative number or one
  that is not an integer.
\<close>

definition INT32_MAX :: int where
  "INT32_MAX = 2147483647"

datatype log_entry = Warning string double double double double

definition scaledTimeoutSecs :: "double \<Rightarrow> double \<Rightarrow> double" where
  "scaledTimeoutSecs maxPostComments maxPosts =
     dadd (Math_round
             (dmul (Fin 60)
                (dmul (if falsy_number (dadd maxPostComments maxPosts) then Fin 10
                       else dadd maxPostComments maxPosts)
                      (rnd (8 / 100)))))
          (Fin 600)"

definition handlePageTimeoutSecs :: "double \<Rightarrow> double \<Rightarrow> double \<times> log_entry list" where
  "handlePageTimeoutSecs maxPostComments maxPosts =
     (let secs = scaledTimeoutSecs maxPostComments maxPosts in
      if dge (dmul secs (Fin 60000)) (Fin (of_int INT32_MAX))
      then (Fin (of_int (INT32_MAX div 60000)),
            [Warning ''maxPosts + maxPostComments parameter is too high''
               maxPostComments maxPosts secs (dmul secs (Fin 60000))])
      else (secs, []))"

section \<open>Characters and strings\<close>

text \<open>Character classes are ranges of character codes.\<close>

definition code_in :: "char \<Rightarrow> nat \<Rightarrow> nat \<Rightarrow> bool" where
  "code_in c lo hi = (lo \<le> of_char c \<and> of_char c \<le> hi)"

definition is_digit :: "char \<Rightarrow> bool" where
  "is_digit c = code_in c 48 57"

definition is_upper :: "char \<Rightarrow> bool" where
  "is_upper c = code_in c 65 90"

definition is_lower :: "char \<Rightarrow> bool" where
  "is_lower c = code_in c 97 122"

definition toLowerCase :: "char \<Rightarrow> char" where
  "toLowerCase c = (if is_upper c then char_of (of_char c + (32::nat)) else c)"

text \<open>
  \<^verbatim>\<open>\s\<close> of a JavaScript regular expression, among the characters with a code below
  256: tab to carriage return, the space and the no-break space.
\<close>

definition is_space :: "char \<Rightarrow> bool" where
  "is_space c = (code_in c 9 13 \<or> code_in c 32 32 \<or> code_in c 160 160)"

definition digit_val :: "char \<Rightarrow> nat" where
  "digit_val c = of_char c - 48"

definition nat_of_digits :: "string \<Rightarrow> nat" where
  "nat_of_digits ds = foldl (\<lambda>n c. 10 * n + digit_val c) 0 ds"

text \<open>\<^verbatim>\<open>s.includes(t)\<close> and \<^verbatim>\<open>s.startsWith(t)\<close>.\<close>

definition str_includes :: "string \<Rightarrow> string \<Rightarrow> bool" where
  "str_includes s t = (\<exists>i \<in> set [0 ..< Suc (length s)]. prefix t (drop i s))"

definition startsWith :: "string \<Rightarrow> string \<Rightarrow> bool" where
  "startsWith s t = prefix t s"

section \<open>Dates: \<^verbatim>\<open>parseTimeUnit\<close> and \<^verbatim>\<open>minMaxDates\<close>\<close>

text \<open>
  A moment.js object is an instant in milliseconds since the epoch, or an invalid date.
  \<^verbatim>\<open>a.diff(b)\<close> is the difference in milliseconds, \<^verbatim>\<open>NaN\<close> when either side is
  invalid; \<open>None\<close> stands for \<^verbatim>\<open>NaN\<close>, and every comparison with it is false.
\<close>

datatype moment = Moment int | InvalidMoment

fun diff :: "moment \<Rightarrow> moment \<Rightarrow> int option" where
  "diff (Moment a) (Moment b) = Some (a - b)"
| "diff _ _ = None"

definition js_lt :: "int option \<Rightarrow> int \<Rightarrow> bool" where
  "js_lt d k = (case d of None \<Rightarrow> False | Some x \<Rightarrow> x < k)"

definition js_le :: "int option \<Rightarrow> int \<Rightarrow> bool" where
  "js_le d k = (case d of None \<Rightarrow> False | Some x \<Rightarrow> x \<le> k)"

definition js_gt :: "int option \<Rightarrow> int \<Rightarrow> bool" where
  "js_gt d k = (case d of None \<Rightarrow> False | Some x \<Rightarrow> x > k)"

definition js_ge :: "int option \<Rightarrow> int \<Rightarrow> bool" where
  "js_ge d k = (case d of None \<Rightarrow> False | Some x \<Rightarrow> x \<ge> k)"

text \<open>
  The values a date bound or a timestamp can take (\<^verbatim>\<open>number | string\<close>, or absent).
\<close>

datatype timeval = TUndefined | TNumber int | TString string

datatype timeunit = Minute | Second | Day | Hour | Month | Year | Week

text \<open>
  What moment.js itself computes is a parameter of the model: the current instant
  \<^verbatim>\<open>moment()\<close>, \<^verbatim>\<open>.startOf('day')\<close>, \<^verbatim>\<open>.subtract(n, unit)\<close> (calendar arithmetic in
  the local time zone) and the parsing of a date string \<^verbatim>\<open>moment(string)\<close>.
\<close>

record moment_lib =
  now :: int
  startOfDay :: "int \<Rightarrow> int"
  subtract :: "int \<Rightarrow> nat \<Rightarrow> timeunit \<Rightarrow> moment"
  parseString :: "string \<Rightarrow> moment"

definition MAX_TIME :: int where
  "MAX_TIME = 8640000000000000"

text \<open>\<^verbatim>\<open>moment(value)\<close>: a number is a timestamp in milliseconds.\<close>

fun moment_of :: "moment_lib \<Rightarrow> timeval \<Rightarrow> moment" where
  "moment_of lib TUndefined = Moment (now lib)"
| "moment_of lib (TNumber n) = (if \<bar>n\<bar> \<le> MAX_TIME then Moment n else InvalidMoment)"
| "moment_of lib (TString s) = parseString lib s"

definition unit_names :: "(string \<times> timeunit) list" where
  "unit_names = [(''minute'', Minute), (''second'', Second), (''day'', Day), (''hour'', Hour),
                 (''month'', Month), (''year'', Year), (''week'', Week)]"

text \<open>
  \<^verbatim>\<open>`${value}`.match(/^(\d+)\s?(minute|second|day|hour|month|year|week)s?$/i)\<close>:
  the captured number and unit, if the string matches.
\<close>

definition match_time_unit :: "string \<Rightarrow> (string \<times> timeunit) option" where
  "match_time_unit s =
     (let number = takeWhile is_digit s;
          rest = dropWhile is_digit s;
          rest' = (case rest of c # cs \<Rightarrow> if is_space c then cs else rest | [] \<Rightarrow> rest);
          word = map toLowerCase rest'
      in if number = [] then None
         else case map_of unit_names word of
                Some u \<Rightarrow> Some (number, u)
              | None \<Rightarrow>
                 (if word \<noteq> [] \<and> last word = CHR ''s''
                  then map_option (\<lambda>u. (number, u)) (map_of unit_names (butlast word))
                  else None))"

fun parseTimeUnit :: "moment_lib \<Rightarrow> timeval \<Rightarrow> moment option" where
  "parseTimeUnit lib TUndefined = None"
| "parseTimeUnit lib (TNumber n) = (if n = 0 then None else Some (moment_of lib (TNumber n)))"
| "parseTimeUnit lib (TString s) =
     (if s = [] then None
      else if s = ''today'' then Some (Moment (startOfDay lib (now lib)))
      else if s = ''yesterday'' then
        Some (case subtract lib (now lib) 1 Day of
                Moment t \<Rightarrow> Moment (startOfDay lib t) | InvalidMoment \<Rightarrow> InvalidMoment)
      else case match_time_unit s of
             Some (number, unit) \<Rightarrow>
               (if nat_of_digits number \<noteq> 0
                then Some (subtract lib (now lib) (nat_of_digits number) unit)
                else Some (moment_of lib (TString s)))
           | None \<Rightarrow> Some (moment_of lib (TString s)))"

datatype error = Error string | RangeError

record MinMaxDates =
  minDate :: "moment option"
  maxDate :: "moment option"

definition minMaxDates :: "moment_lib \<Rightarrow> timeval \<Rightarrow> timeval \<Rightarrow> error + MinMaxDates" where
  "minMaxDates lib min' max' =
     (let minDate = parseTimeUnit lib min';
          maxDate = parseTimeUnit lib max'
      in if minDate \<noteq> None \<and> maxDate \<noteq> None \<and> js_lt (diff (the maxDate) (the minDate)) 0
         then Inl (Error ''Minimum date needs to be less than max date'')
         else Inr \<lparr>minDate = minDate, maxDate = maxDate\<rparr>)"

definition compare :: "moment_lib \<Rightarrow> MinMaxDates \<Rightarrow> timeval \<Rightarrow> bool" where
  "compare lib w time =
     (let base = moment_of lib time
      in (case minDate w of Some m \<Rightarrow> js_le (diff m base) 0 | None \<Rightarrow> True)
       \<and> (case maxDate w of Some m \<Rightarrow> js_ge (diff m base) 0 | None \<Rightarrow> True))"

section \<open>The date-windowed sampler: \<^verbatim>\<open>dateRangeItemCounter\<close>\<close>

text \<open>
  The closure's variables are the fields of the state; \<^verbatim>\<open>max.older\<close>, \<^verbatim>\<open>max.newer\<close>,
  \<^verbatim>\<open>min.older\<close> and \<^verbatim>\<open>min.newer\<close> are flattened. All of them are doubles. The
  counters start at 0 and change by \<^verbatim>\<open>++\<close> only, so they are integers: \<open>inc\<close> is
  \<^verbatim>\<open>x++\<close>, which stops at \<open>2 ^ 53\<close> because \<open>2 ^ 53 + 1\<close> rounds back to \<open>2 ^ 53\<close>.
  \<^verbatim>\<open>total\<close> grows by the argument of \<^verbatim>\<open>add\<close>, any double.
\<close>

definition inc :: "int \<Rightarrow> int" where
  "inc n = (if n < 9007199254740992 then n + 1 else n)"

record counter =
  minMax :: MinMaxDates
  total :: double
  max_older :: int
  max_newer :: int
  min_older :: int
  min_newer :: int
  outOfRange :: int
  empty' :: int
  inRange :: int
  calls :: int
  willCheckRange :: bool

definition dateRangeItemCounter :: "MinMaxDates \<Rightarrow> counter" where
  "dateRangeItemCounter mm =
     \<lparr>minMax = mm, total = Fin 0, max_older = 0, max_newer = 0, min_older = 0, min_newer = 0,
      outOfRange = 0, empty' = 0, inRange = 0, calls = 0,
      willCheckRange = (maxDate mm \<noteq> None \<and> minDate mm \<noteq> None)\<rparr>"

definition counter_empty :: "bool \<Rightarrow> counter \<Rightarrow> counter" where
  "counter_empty predicate s =
     (let s1 = s\<lparr>calls := inc (calls s)\<rparr>
      in if predicate then s1\<lparr>empty' := inc (empty' s1)\<rparr> else s1)"

definition counter_add :: "double \<Rightarrow> counter \<Rightarrow> counter" where
  "counter_add v s = s\<lparr>calls := inc (calls s), total := dadd (total s) v\<rparr>"

definition counter_time :: "moment_lib \<Rightarrow> timeval \<Rightarrow> counter \<Rightarrow> bool \<times> counter" where
  "counter_time lib v s =
     (let cmp = compare lib (minMax s) v in
      if \<not> cmp then
        (let s1 = s\<lparr>outOfRange := inc (outOfRange s)\<rparr>;
             s2 = (case maxDate (minMax s) of
                     None \<Rightarrow> s1
                   | Some m \<Rightarrow>
                       if js_gt (diff m (moment_of lib v)) 0
                       then s1\<lparr>max_older := inc (max_older s1)\<rparr>
                       else if js_lt (diff m (moment_of lib v)) 0
                       then s1\<lparr>max_newer := inc (max_newer s1)\<rparr>
                       else s1);
             s3 = (case minDate (minMax s) of
                     None \<Rightarrow> s2
                   | Some m \<Rightarrow>
                       if js_lt (diff m (moment_of lib v)) 0
                       then s2\<lparr>min_newer := inc (min_newer s2)\<rparr>
                       else if js_gt (diff m (moment_of lib v)) 0
                       then s2\<lparr>min_older := inc (min_older s2)\<rparr>
                       else s2)
         in (cmp, s3))
      else (cmp, s\<lparr>inRange := inc (inRange s)\<rparr>))"

text \<open>
  \<^verbatim>\<open>n / total\<close> for a counter \<open>n\<close>: a finite number over an infinity is a zero, and
  over a zero it is an infinity, or \<^verbatim>\<open>NaN\<close> when \<open>n\<close> is 0 as well (\<^verbatim>\<open>total\<close>
  starts as the positive zero and a sum of doubles is never the negative one unless both
  are). \<open>range_threshold\<close> and \<open>empty_threshold\<close> are the doubles that the literals
  \<^verbatim>\<open>0.95\<close> and \<^verbatim>\<open>0.8\<close> denote.
\<close>

fun ratio :: "int \<Rightarrow> double \<Rightarrow> double" where
  "ratio n (Fin t) =
     (if t = 0 then (if n > 0 then PosInf else if n < 0 then NegInf else NaN)
      else rnd (of_int n / t))"
| "ratio n NaN = NaN"
| "ratio n PosInf = Fin 0"
| "ratio n NegInf = Fin 0"

definition range_threshold :: double where
  "range_threshold = rnd (95 / 100)"

definition empty_threshold :: double where
  "empty_threshold = rnd (8 / 10)"

definition isOver :: "counter \<Rightarrow> bool" where
  "isOver s =
     (if calls s > 0 \<and> dgt (total s) (Fin 0)
      then (if willCheckRange s \<and> inRange s > 0
            then dgt (dadd (ratio (outOfRange s) (total s)) (ratio (inRange s) (total s)))
                     range_threshold
            else False)
         \<or> (if empty' s \<noteq> 0
             then dgt (ratio (empty' s) (total s)) empty_threshold
             else False)
      else False)"

text \<open>A scroll session is a sequence of calls on the counter.\<close>

datatype counter_call = CallEmpty bool | CallAdd double | CallTime timeval

fun counter_step :: "moment_lib \<Rightarrow> counter \<Rightarrow> counter_call \<Rightarrow> counter" where
  "counter_step lib s (CallEmpty b) = counter_empty b s"
| "counter_step lib s (CallAdd v) = counter_add v s"
| "counter_step lib s (CallTime v) = snd (counter_time lib v s)"

definition counter_run :: "moment_lib \<Rightarrow> MinMaxDates \<Rightarrow> counter_call list \<Rightarrow> counter" where
  "counter_run lib mm cs = foldl (counter_step lib) (dateRangeItemCounter mm) cs"

text \<open>
  An instance of the moment.js parameters for evaluating examples: the clock stands at
  instant \<open>t\<close>, days are those of UTC, and the units of fixed length are subtracted as
  milliseconds. Calendar months and years and date strings are not covered by it.
\<close>

fun unit_millis :: "timeunit \<Rightarrow> int option" where
  "unit_millis Second = Some 1000"
| "unit_millis Minute = Some 60000"
| "unit_millis Hour = Some 3600000"
| "unit_millis Day = Some 86400000"
| "unit_millis Week = Some 604800000"
| "unit_millis Month = None"
| "unit_millis Year = None"

definition fixed_subtract :: "int \<Rightarrow> nat \<Rightarrow> timeunit \<Rightarrow> moment" where
  "fixed_subtract x n u =
     (case unit_millis u of Some k \<Rightarrow> Moment (x - int n * k) | None \<Rightarrow> InvalidMoment)"

definition utc_startOfDay :: "int \<Rightarrow> int" where
  "utc_startOfDay x = x - x mod 86400000"

definition no_parse :: "string \<Rightarrow> moment" where
  "no_parse s = InvalidMoment"

definition sample_lib :: "int \<Rightarrow> moment_lib" where
  "sample_lib t = \<lparr>now = t, startOfDay = utc_startOfDay, subtract = fixed_subtract,
                    parseString = no_parse\<rparr>"

section \<open>\<^verbatim>\<open>convertDate\<close>\<close>

text \<open>
  The argument is \<^verbatim>\<open>string | number | Date | undefined | null\<close>; the result is a string
  in ISO mode and a number otherwise, where the number may be \<^verbatim>\<open>Infinity\<close> or
  \<^verbatim>\<open>NaN\<close>. \<^verbatim>\<open>toISOString\<close> of an invalid date throws a \<^verbatim>\<open>RangeError\<close>. Parsing a
  date string, formatting an instant and the numeric value of a string
  (\<^verbatim>\<open>+value\<close>, \<open>None\<close> when it is not finite) belong to the platform and are parameters.
\<close>

datatype dateval = DUndefined | DNull | DNumber int | DString string | DDate moment

datatype date_result = ResString string | ResNumber int | ResInfinity | ResNaN

record date_lib =
  Date_parse :: "string \<Rightarrow> moment"
  toISOString :: "int \<Rightarrow> string"
  toNumber :: "string \<Rightarrow> rat option"

definition truncate :: "rat \<Rightarrow> int" where
  "truncate q = (if q \<ge> 0 then \<lfloor>q\<rfloor> else \<lceil>q\<rceil>)"

text \<open>\<^verbatim>\<open>new Date(number)\<close>, the number being finite or not a number at all.\<close>

definition Date_of_number :: "rat option \<Rightarrow> moment" where
  "Date_of_number q =
     (case q of None \<Rightarrow> InvalidMoment
      | Some x \<Rightarrow> if \<bar>x\<bar> \<le> of_int MAX_TIME then Moment (truncate x) else InvalidMoment)"

fun ndigits :: "nat \<Rightarrow> nat" where
  "ndigits n = (if n < 10 then 1 else Suc (ndigits (n div 10)))"

text \<open>The length of \<^verbatim>\<open>`${n}`\<close> for an integer written in plain decimal.\<close>

definition decimal_length :: "int \<Rightarrow> nat" where
  "decimal_length n = (if n < 0 then Suc (ndigits (nat (- n))) else ndigits (nat n))"

definition falsy :: "dateval \<Rightarrow> bool" where
  "falsy v = (v = DUndefined \<or> v = DNull \<or> v = DNumber 0 \<or> v = DString [])"

definition date_result_of :: "date_lib \<Rightarrow> bool \<Rightarrow> moment \<Rightarrow> error + date_result" where
  "date_result_of lib isoString d =
     (if isoString
      then (case d of Moment t \<Rightarrow> Inr (ResString (toISOString lib t))
                    | InvalidMoment \<Rightarrow> Inl RangeError)
      else (case d of Moment t \<Rightarrow> Inr (ResNumber t) | InvalidMoment \<Rightarrow> Inr ResNaN))"

definition too_short :: "moment \<Rightarrow> bool" where
  "too_short d = (case d of InvalidMoment \<Rightarrow> True | Moment t \<Rightarrow> decimal_length t < 13)"

definition convertDate :: "date_lib \<Rightarrow> dateval \<Rightarrow> bool \<Rightarrow> error + date_result" where
  "convertDate lib v isoString =
     (if falsy v
      then Inr (if isoString then ResString ''2100-01-01T00:00:00.000Z'' else ResInfinity)
      else case v of
        DDate d \<Rightarrow> date_result_of lib isoString d
      | DString s \<Rightarrow>
          (let tryConvert = Date_parse lib s in
           date_result_of lib isoString
             (if too_short tryConvert
              then Date_of_number (if length s \<ge> 13 then toNumber lib s
                                   else map_option (\<lambda>x. x * 1000) (toNumber lib s))
              else tryConvert))
      | DNumber n \<Rightarrow>
          (let tryConvert = Date_of_number (Some (of_int n)) in
           date_result_of lib isoString
             (if too_short tryConvert
              then Date_of_number (Some (of_int (if decimal_length n \<ge> 13 then n else n * 1000)))
              else tryConvert))
      | _ \<Rightarrow> Inr ResNaN)"

section \<open>Change detection of \<^verbatim>\<open>scrollUntil\<close>\<close>

text \<open>
  \<^verbatim>\<open>scrolls\<close> and \<^verbatim>\<open>heights\<close> are JavaScript sets of numbers, kept here as lists
  without repetition in insertion order; \<^verbatim>\<open>count\<close> and \<^verbatim>\<open>lastCount\<close> are the closure's
  two counters. A sampled value is a number or absent (\<open>None\<close>).
\<close>

record scroll_state =
  scrolls :: "int list"
  heights :: "int list"
  count :: nat
  lastCount :: nat

definition scroll_init :: scroll_state where
  "scroll_init = \<lparr>scrolls = [], heights = [], count = 0, lastCount = 0\<rparr>"

definition set_add :: "int \<Rightarrow> int list \<Rightarrow> int list" where
  "set_add v xs = (if v \<in> set xs then xs else xs @ [v])"

definition isChanging :: "int list \<Rightarrow> int option \<Rightarrow> scroll_state \<Rightarrow> bool \<times> scroll_state" where
  "isChanging histogram num st =
     (case num of
        None \<Rightarrow> (False, st)
      | Some n \<Rightarrow>
          if length histogram \<le> lastCount st then (False, st)
          else (list_all (\<lambda>val. n \<noteq> val) histogram, st\<lparr>lastCount := length histogram\<rparr>))"

text \<open>
  What one turn of the loop reads from the page and from its options: the answer of
  \<^verbatim>\<open>doScroll()\<close>, the four answers of \<^verbatim>\<open>page.isClosed()\<close>, the two sampled signals,
  whether a selector was found and the answer of \<^verbatim>\<open>maybeStop\<close> to its argument.
\<close>

record maybeStop_param =
  p_count :: nat
  p_scrollChanged :: bool
  p_bodyChanged :: bool
  p_heightSize :: nat
  p_scrollSize :: nat

record observation =
  doScroll :: bool
  closedBeforeScroll :: bool
  closedAfterScroll :: bool
  lastScroll :: "int option"
  closedAfterSample :: bool
  bodyHeight :: "int option"
  closedAtCheck :: bool
  foundSelectors :: bool
  maybeStop :: "maybeStop_param \<Rightarrow> bool"

datatype turn = Break | Continue

definition truthy :: "int option \<Rightarrow> bool" where
  "truthy v = (case v of None \<Rightarrow> False | Some n \<Rightarrow> n \<noteq> 0)"

definition shouldContinue :: "observation \<Rightarrow> scroll_state \<Rightarrow> bool \<Rightarrow> bool \<Rightarrow> bool" where
  "shouldContinue ob st scrollChanged bodyChanged =
     (if closedAtCheck ob then False
      else if foundSelectors ob then False
      else if maybeStop ob \<lparr>p_count = count st, p_scrollChanged = scrollChanged,
                              p_bodyChanged = bodyChanged, p_heightSize = length (heights st),
                              p_scrollSize = length (scrolls st)\<rparr> then False
      else True)"

text \<open>
  One turn of the \<^verbatim>\<open>while (true)\<close> loop: whether the loop goes on, the two change
  flags when the turn got as far as computing them, and the new state.
\<close>

definition scroll_turn ::
  "observation \<Rightarrow> scroll_state \<Rightarrow> turn \<times> (bool \<times> bool) option \<times> scroll_state" where
  "scroll_turn ob st =
     (if \<not> doScroll ob then (Continue, None, st)
      else if closedBeforeScroll ob then (Break, None, st)
      else if closedAfterScroll ob then (Break, None, st)
      else
        (let (scrollChanged, st1) = isChanging (scrolls st) (lastScroll ob) st;
             st2 = (if truthy (lastScroll ob)
                    then st1\<lparr>scrolls := set_add (the (lastScroll ob)) (scrolls st1)\<rparr> else st1)
         in if closedAfterSample ob then (Break, None, st2)
            else
              (let (bodyChanged, st3) = isChanging (heights st2) (bodyHeight ob) st2;
                   st4 = (if truthy (bodyHeight ob)
                          then st3\<lparr>heights := set_add (the (bodyHeight ob)) (heights st3)\<rparr>
                          else st3)
               in if \<not> shouldContinue ob st4 scrollChanged bodyChanged
                  then (Break, Some (scrollChanged, bodyChanged), st4)
                  else (Continue, Some (scrollChanged, bodyChanged),
                        st4\<lparr>count := count st4 + 1\<rparr>))))"

text \<open>
  The loop over the observations of a session: it stops at the first \<^verbatim>\<open>break\<close>, and
  returns the change flags of every turn taken, with the last state. The source's loop has
  no other exit; a session that never breaks is an infinite list of observations, of
  which this is any finite part.
\<close>

fun scrollUntil ::
  "observation list \<Rightarrow> scroll_state \<Rightarrow> (bool \<times> bool) option list \<times> scroll_state" where
  "scrollUntil [] st = ([], st)"
| "scrollUntil (ob # obs) st =
     (case scroll_turn ob st of
        (Break, flags, st') \<Rightarrow> ([flags], st')
      | (Continue, flags, st') \<Rightarrow>
          (let (rest, st'') = scrollUntil obs st' in (flags # rest, st'')))"

text \<open>
  The change detection as the specification words it, for comparison: every signal has
  its own history and its own mark of the history's size at its previous check.
\<close>

record signal_state =
  history :: "int list"
  mark :: nat

definition spec_isChanging :: "int option \<Rightarrow> signal_state \<Rightarrow> bool \<times> signal_state" where
  "spec_isChanging num sg =
     (case num of
        None \<Rightarrow> (False, sg)
      | Some n \<Rightarrow>
          (length (history sg) > mark sg \<and> n \<notin> set (history sg),
           sg\<lparr>mark := length (history sg)\<rparr>))"

definition spec_observe :: "int option \<Rightarrow> signal_state \<Rightarrow> bool \<times> signal_state" where
  "spec_observe num sg =
     (let (changed, sg1) = spec_isChanging num sg
      in (changed, if truthy num then sg1\<lparr>history := set_add (the num) (history sg1)\<rparr> else sg1))"

fun spec_changes :: "int option list \<Rightarrow> signal_state \<Rightarrow> bool list" where
  "spec_changes [] sg = []"
| "spec_changes (v # vs) sg =
     (let (changed, sg') = spec_observe v sg in changed # spec_changes vs sg')"

text \<open>A turn in which the page stays open, nothing stops the loop and both signals are read.\<close>

definition never_stop :: "maybeStop_param \<Rightarrow> bool" where
  "never_stop param = False"

definition plain_turn :: "int \<Rightarrow> int \<Rightarrow> observation" where
  "plain_turn scrollY scrollHeight =
     \<lparr>doScroll = True, closedBeforeScroll = False, closedAfterScroll = False,
      lastScroll = Some scrollY, closedAfterSample = False, bodyHeight = Some scrollHeight,
      closedAtCheck = False, foundSelectors = False, maybeStop = never_stop\<rparr>"

definition signal_init :: signal_state where
  "signal_init = \<lparr>history = [], mark = 0\<rparr>"

section \<open>Sample sessions of the sampler\<close>

definition sample_window :: MinMaxDates where
  "sample_window = \<lparr>minDate = Some (Moment 1000), maxDate = Some (Moment 2000)\<rparr>"

text \<open>\<^verbatim>\<open>add(100)\<close>, then 96 timestamps outside the window.\<close>

definition session_out_only :: counter where
  "session_out_only =
     counter_run (sample_lib 0) sample_window
       (CallAdd (Fin 100) # replicate 96 (CallTime (TNumber 5000)))"

text \<open>\<^verbatim>\<open>add(20)\<close>, then 18 timestamps outside the window and one inside.\<close>

definition session_rounding :: counter where
  "session_rounding =
     counter_run (sample_lib 0) sample_window
       (CallAdd (Fin 20) # replicate 18 (CallTime (TNumber 5000)) @ [CallTime (TNumber 1500)])"

definition session_mostly_out :: counter where
  "session_mostly_out =
     counter_run (sample_lib 0) sample_window
       (CallAdd (Fin 100) # replicate 80 (CallTime (TNumber 5000))
          @ replicate 16 (CallTime (TNumber 1500)))"

definition session_mixed :: counter where
  "session_mixed =
     counter_run (sample_lib 0) sample_window
       (CallAdd (Fin 100) # replicate 30 (CallTime (TNumber 5000))
          @ replicate 50 (CallTime (TNumber 1500)))"

section \<open>Sample windows\<close>

definition two_days_window :: MinMaxDates where
  "two_days_window = \<lparr>minDate = Some (Moment 1699827200000),
                        maxDate = Some (Moment 1699913600000)\<rparr>"





section \<open>The platform's URL class\<close>

text \<open>
  \<^verbatim>\<open>new URL(...)\<close>, its accessors and \<^verbatim>\<open>searchParams\<close> are the platform's
  implementation of the WHATWG URL Standard. The model covers the URLs the program works
  on: scheme \<^verbatim>\<open>http\<close> or \<^verbatim>\<open>https\<close> followed by \<^verbatim>\<open>//\<close>, a host that is a domain name
  of letters, digits and hyphens, an optional port, no credentials, and only characters
  that the parser takes over unchanged; white space around the string is dropped and
  the scheme and the host are turned to lower case, as the parser does. On such a string
  the model computes what the standard prescribes. A string without a colon has no
  scheme, and parsing it fails with a \<^verbatim>\<open>TypeError\<close>. For every other string the
  model answers \<open>Unsupported\<close>, which is not a behaviour of the program: it marks an
  input about which the model says nothing.
\<close>

datatype url_error = InfoError string string | TypeError | Unsupported

record url =
  scheme :: string
  host :: string
  port :: "nat option"
  path :: "string list"
  query :: "string option"
  fragment :: "string option"

text \<open>\<^verbatim>\<open>s.split(c)\<close> and \<^verbatim>\<open>xs.join(sep)\<close>.\<close>

fun split_on :: "char \<Rightarrow> string \<Rightarrow> string list" where
  "split_on c [] = [[]]"
| "split_on c (x # xs) =
     (if x = c then [] # split_on c xs
      else case split_on c xs of y # ys \<Rightarrow> (x # y) # ys | [] \<Rightarrow> [[x]])"

fun join :: "string \<Rightarrow> string list \<Rightarrow> string" where
  "join sep [] = []"
| "join sep [x] = x"
| "join sep (x # y # ys) = x @ sep @ join sep (y # ys)"

definition is_hex :: "char \<Rightarrow> bool" where
  "is_hex c = (is_digit c \<or> code_in c 97 102 \<or> code_in c 65 70)"

definition hex_val :: "char \<Rightarrow> nat" where
  "hex_val c = (if is_digit c then of_char c - 48
                else if code_in c 97 102 then of_char c - 87
                else of_char c - 55)"

definition hex_digit :: "nat \<Rightarrow> char" where
  "hex_digit n = ''0123456789ABCDEF'' ! n"

definition percent_encode :: "char \<Rightarrow> string" where
  "percent_encode c =
     [CHR ''%'', hex_digit (of_char c div 16), hex_digit (of_char c mod 16)]"

fun percent_decode :: "string \<Rightarrow> string" where
  "percent_decode (c # a # b # cs) =
     (if c = CHR ''%'' \<and> is_hex a \<and> is_hex b
      then char_of (16 * hex_val a + hex_val b) # percent_decode cs
      else c # percent_decode (a # b # cs))"
| "percent_decode cs = cs"

subsection \<open>Paths\<close>

definition is_single_dot :: "string \<Rightarrow> bool" where
  "is_single_dot s = (map toLowerCase s \<in> {''.'', ''%2e''})"

definition is_double_dot :: "string \<Rightarrow> bool" where
  "is_double_dot s = (map toLowerCase s \<in> {''..'', ''.%2e'', ''%2e.'', ''%2e%2e''})"

text \<open>
  The path percent-encode set, on single-byte characters: controls, the space, what lies
  above \<^verbatim>\<open>~\<close>, and \<^verbatim>\<open>" # < > ? ^ ` { }\<close>.
\<close>

definition in_path_encode_set :: "char \<Rightarrow> bool" where
  "in_path_encode_set c =
     (of_char c \<le> (32::nat) \<or> of_char c \<ge> (127::nat)
      \<or> of_char c \<in> {34, 35, 60, 62, 63, 94, 96, 123, 125 :: nat})"

text \<open>
  The end of a segment in the path state: \<open>slash\<close> tells whether the segment ended at a
  slash or at the end of the input.
\<close>

definition end_segment :: "string \<Rightarrow> bool \<Rightarrow> string list \<Rightarrow> string list" where
  "end_segment buffer slash p =
     (if is_double_dot buffer then (if slash then butlast p else butlast p @ [[]])
      else if is_single_dot buffer then (if slash then p else p @ [[]])
      else p @ [buffer])"

text \<open>The path state of the parser, as the \<^verbatim>\<open>pathname\<close> setter runs it on a special URL.\<close>

fun path_state :: "string \<Rightarrow> string \<Rightarrow> string list \<Rightarrow> string list" where
  "path_state [] buffer p = end_segment buffer False p"
| "path_state (c # cs) buffer p =
     (if c = CHR ''/'' \<or> c = CHR 0x5C then path_state cs [] (end_segment buffer True p)
      else path_state cs
             (buffer @ (if in_path_encode_set c then percent_encode c else [c])) p)"

definition is_tab_or_newline :: "char \<Rightarrow> bool" where
  "is_tab_or_newline c = (of_char c \<in> {9, 10, 13 :: nat})"

definition parse_path :: "string \<Rightarrow> string list" where
  "parse_path v =
     (let input = filter (\<lambda>c. \<not> is_tab_or_newline c) v;
          input' = (case input of c # cs \<Rightarrow>
                      if c = CHR ''/'' \<or> c = CHR 0x5C then cs else input | [] \<Rightarrow> input)
      in path_state input' [] [])"

subsection \<open>Query strings\<close>

text \<open>The \<^verbatim>\<open>application/x-www-form-urlencoded\<close> parser and serializer.\<close>

definition form_decode :: "string \<Rightarrow> string" where
  "form_decode s = percent_decode (map (\<lambda>c. if c = CHR ''+'' then CHR '' '' else c) s)"

definition parse_query :: "string \<Rightarrow> (string \<times> string) list" where
  "parse_query q =
     map (\<lambda>sq. (form_decode (takeWhile (\<lambda>c. c \<noteq> CHR ''='') sq),
                form_decode (drop (Suc (length (takeWhile (\<lambda>c. c \<noteq> CHR ''='') sq))) sq)))
         (filter (\<lambda>sq. sq \<noteq> []) (split_on CHR ''&'' q))"

definition form_encode_char :: "char \<Rightarrow> string" where
  "form_encode_char c =
     (if is_lower c \<or> is_upper c \<or> is_digit c \<or> of_char c \<in> {42, 45, 46, 95 :: nat} then [c]
      else if c = CHR '' '' then ''+''
      else percent_encode c)"

definition form_encode :: "string \<Rightarrow> string" where
  "form_encode s = concat (map form_encode_char s)"

definition serialize_query :: "(string \<times> string) list \<Rightarrow> string" where
  "serialize_query ps = join ''&'' (map (\<lambda>(k, v). form_encode k @ ''='' @ form_encode v) ps)"

subsection \<open>Parsing and serializing\<close>

text \<open>
  The characters a supported string is made of: letters, digits and
  \<^verbatim>\<open>- . _ ~ ! $ & ( ) * + , ; = : @ / ? # %\<close>. None of them is percent-encoded by the
  parser in a path, a query or a fragment.
\<close>

definition url_char :: "char \<Rightarrow> bool" where
  "url_char c =
     (is_lower c \<or> is_upper c \<or> code_in c 35 38 \<or> code_in c 40 59 \<or> code_in c 63 64
      \<or> of_char c \<in> {33, 61, 95, 126 :: nat})"

text \<open>
  The hosts of the model: labels of lower-case letters, digits and hyphens, none empty
  and none starting with \<^verbatim>\<open>xn--\<close>, the last one starting with a letter (a host that
  ends in a number is an IPv4 address to the parser).
\<close>

definition label_supported :: "string \<Rightarrow> bool" where
  "label_supported l =
     (l \<noteq> [] \<and> list_all (\<lambda>c. is_lower c \<or> is_digit c \<or> c = CHR ''-'') l
      \<and> \<not> prefix ''xn--'' l)"

definition host_supported :: "string \<Rightarrow> bool" where
  "host_supported h =
     (list_all label_supported (split_on CHR ''.'' h)
      \<and> is_lower (hd (last (split_on CHR ''.'' h))))"

text \<open>
  A percent-encoded byte above \<open>0x7F\<close> in a query is decoded as UTF-8 by
  \<^verbatim>\<open>searchParams\<close>; the model leaves such queries out.
\<close>

fun query_supported :: "string \<Rightarrow> bool" where
  "query_supported (c # a # cs) =
     ((c = CHR ''%'' \<longrightarrow> \<not> (code_in a 56 57 \<or> code_in a 97 102 \<or> code_in a 65 70))
      \<and> query_supported (a # cs))"
| "query_supported cs = True"

definition default_port :: "string \<Rightarrow> nat" where
  "default_port sch = (if sch = ''https'' then 443 else 80)"

definition strip_scheme :: "string \<Rightarrow> (string \<times> string) option" where
  "strip_scheme s =
     (if map toLowerCase (take 8 s) = ''https://'' then Some (''https'', drop 8 s)
      else if map toLowerCase (take 7 s) = ''http://'' then Some (''http'', drop 7 s)
      else None)"

definition ends_authority :: "char \<Rightarrow> bool" where
  "ends_authority c = (c = CHR ''/'' \<or> c = CHR ''?'' \<or> c = CHR ''#'')"

definition ends_path :: "char \<Rightarrow> bool" where
  "ends_path c = (c = CHR ''?'' \<or> c = CHR ''#'')"

text \<open>
  The parser works from left to right; each of the following functions takes what has
  been read so far and the rest. \<open>parse_tail\<close> reads what follows the path: a query
  after \<^verbatim>\<open>?\<close> up to \<^verbatim>\<open>#\<close>, and a fragment after \<^verbatim>\<open>#\<close>.
\<close>

definition parse_fragment :: "string \<Rightarrow> string option" where
  "parse_fragment s = (case s of c # cs \<Rightarrow> Some cs | [] \<Rightarrow> None)"

definition parse_tail :: "string \<Rightarrow> string option \<times> string option" where
  "parse_tail s =
     (case s of
        [] \<Rightarrow> (None, None)
      | c # cs \<Rightarrow>
          if c = CHR ''?''
          then (Some (takeWhile (\<lambda>c. c \<noteq> CHR ''#'') cs),
                parse_fragment (dropWhile (\<lambda>c. c \<noteq> CHR ''#'') cs))
          else (None, Some cs))"

definition parse_port :: "string \<Rightarrow> string \<Rightarrow> nat option" where
  "parse_port sch portstr =
     (if portstr = [] \<or> nat_of_digits portstr = default_port sch then None
      else Some (nat_of_digits portstr))"

definition make_url ::
  "string \<Rightarrow> string \<Rightarrow> string \<Rightarrow> string list \<Rightarrow> string option \<times> string option
     \<Rightarrow> url_error + url" where
  "make_url sch hostname portstr p tail =
     (if \<not> host_supported hostname then Inl Unsupported
      else if \<not> list_all is_digit portstr \<or> nat_of_digits portstr > 65535
        then Inl Unsupported
      else if \<not> query_supported (case fst tail of Some q \<Rightarrow> q | None \<Rightarrow> [])
        then Inl Unsupported
      else Inr \<lparr>scheme = sch, host = hostname, port = parse_port sch portstr, path = p,
                query = fst tail, fragment = snd tail\<rparr>)"

definition parse_authority :: "string \<Rightarrow> string \<Rightarrow> string \<Rightarrow> url_error + url" where
  "parse_authority sch authority after =
     make_url sch (map toLowerCase (takeWhile (\<lambda>c. c \<noteq> CHR '':'') authority))
       (drop (Suc (length (takeWhile (\<lambda>c. c \<noteq> CHR '':'') authority))) authority)
       (parse_path (takeWhile (\<lambda>c. \<not> ends_path c) after))
       (parse_tail (dropWhile (\<lambda>c. \<not> ends_path c) after))"

text \<open>
  The parser first drops the control characters and spaces at both ends of its input and
  every tab and newline inside it.
\<close>

definition c0_or_space :: "char \<Rightarrow> bool" where
  "c0_or_space c = code_in c 0 32"

definition url_input :: "string \<Rightarrow> string" where
  "url_input s =
     filter (\<lambda>c. \<not> is_tab_or_newline c)
       (rev (dropWhile c0_or_space (rev (dropWhile c0_or_space s))))"

definition URL_new :: "string \<Rightarrow> url_error + url" where
  "URL_new s =
     (if CHR '':'' \<notin> set s then Inl TypeError
      else if \<not> list_all url_char (url_input s) then Inl Unsupported
      else case strip_scheme (url_input s) of
        None \<Rightarrow> Inl Unsupported
      | Some (sch, rest) \<Rightarrow>
          parse_authority sch (takeWhile (\<lambda>c. \<not> ends_authority c) rest)
            (dropWhile (\<lambda>c. \<not> ends_authority c) rest))"

fun decimal :: "nat \<Rightarrow> string" where
  "decimal n = (if n < 10 then [hex_digit n] else decimal (n div 10) @ [hex_digit (n mod 10)])"

text \<open>The accessors \<^verbatim>\<open>pathname\<close> and \<^verbatim>\<open>hostname\<close>, and \<^verbatim>\<open>toString()\<close>.\<close>

definition pathname :: "url \<Rightarrow> string" where
  "pathname u = concat (map (\<lambda>seg. CHR ''/'' # seg) (path u))"

definition hostname :: "url \<Rightarrow> string" where
  "hostname u = host u"

definition toString :: "url \<Rightarrow> string" where
  "toString u =
     scheme u @ ''://'' @ host u
     @ (case port u of None \<Rightarrow> [] | Some n \<Rightarrow> CHR '':'' # decimal n)
     @ pathname u
     @ (case query u of None \<Rightarrow> [] | Some q \<Rightarrow> CHR ''?'' # q)
     @ (case fragment u of None \<Rightarrow> [] | Some f \<Rightarrow> CHR ''#'' # f)"

text \<open>
  The setters. \<^verbatim>\<open>protocol = 'https:'\<close> on a URL of scheme \<^verbatim>\<open>http\<close> or \<^verbatim>\<open>https\<close>
  sets the scheme and drops a port that is the default of the new scheme. The
  \<^verbatim>\<open>hostname\<close> setter runs the host parser on its argument; the model covers the
  hosts it covers when parsing.
\<close>

definition set_protocol_https :: "url \<Rightarrow> url" where
  "set_protocol_https u =
     u\<lparr>scheme := ''https'', port := (if port u = Some 443 then None else port u)\<rparr>"

definition set_hostname :: "string \<Rightarrow> url \<Rightarrow> url_error + url" where
  "set_hostname h u = (if host_supported h then Inr (u\<lparr>host := h\<rparr>) else Inl Unsupported)"

definition set_pathname :: "string \<Rightarrow> url \<Rightarrow> url" where
  "set_pathname v u = u\<lparr>path := parse_path v\<rparr>"

text \<open>
  \<^verbatim>\<open>searchParams\<close> is the list of name-value pairs of the query.
  \<^verbatim>\<open>searchParams.forEach(callback)\<close> walks the live list by index: after every call of
  the callback it reads the list again and goes on at the next index. The callbacks of
  this program either return or call \<^verbatim>\<open>searchParams.delete(key)\<close>, which removes
  every pair of that name; \<open>keep\<close> tells for which keys the callback returns. The flag
  says whether \<^verbatim>\<open>delete\<close> was called, in which case the query of the URL is written
  anew from the list.
\<close>

definition searchParams :: "url \<Rightarrow> (string \<times> string) list" where
  "searchParams u = parse_query (case query u of None \<Rightarrow> [] | Some q \<Rightarrow> q)"

function forEach_delete ::
  "(string \<Rightarrow> bool) \<Rightarrow> nat \<Rightarrow> (string \<times> string) list \<Rightarrow> bool
     \<Rightarrow> (string \<times> string) list \<times> bool" where
  "forEach_delete keep i ps changed =
     (if i < length ps
      then (if keep (fst (ps ! i)) then forEach_delete keep (Suc i) ps changed
            else forEach_delete keep (Suc i)
                   (filter (\<lambda>p. fst p \<noteq> fst (ps ! i)) ps) True)
      else (ps, changed))"
  by pat_completeness auto
termination
proof (relation "measure (\<lambda>(keep, i, ps, changed). length ps - i)")
  show "wf (measure (\<lambda>(keep, i, ps, changed). length ps - i))" by simp
next
  fix keep :: "string \<Rightarrow> bool" and i :: nat and ps :: "(string \<times> string) list"
    and changed :: bool
  assume "i < length ps"
  then show "((keep, Suc i, ps, changed), (keep, i, ps, changed))
              \<in> measure (\<lambda>(keep, i, ps, changed). length ps - i)"
    by simp
next
  fix keep :: "string \<Rightarrow> bool" and i :: nat and ps :: "(string \<times> string) list"
    and changed :: bool
  assume less: "i < length ps"
  have "length (filter (\<lambda>p. fst p \<noteq> fst (ps ! i)) ps) \<le> length ps"
    by (rule length_filter_le)
  with less have "length (filter (\<lambda>p. fst p \<noteq> fst (ps ! i)) ps) - Suc i < length ps - i"
    by linarith
  then show "((keep, Suc i, filter (\<lambda>p. fst p \<noteq> fst (ps ! i)) ps, True),
              (keep, i, ps, changed)) \<in> measure (\<lambda>(keep, i, ps, changed). length ps - i)"
    by simp
qed

definition forEach_searchParams :: "(string \<Rightarrow> bool) \<Rightarrow> url \<Rightarrow> url" where
  "forEach_searchParams keep u =
     (let (ps, changed) = forEach_delete keep 0 (searchParams u) False
      in if changed
         then u\<lparr>query := (if serialize_query ps = [] then None
                           else Some (serialize_query ps))\<rparr>
         else u)"

section \<open>Regular expressions\<close>

text \<open>
  The regular expressions of this program are sequences of literals, optional literals
  and one-or-more repetitions of a character class. \<^verbatim>\<open>re.test(s)\<close> asks for a match
  starting anywhere in \<open>s\<close>; \<open>ci\<close> is the flag \<^verbatim>\<open>i\<close>.
\<close>

datatype atom = Lit string | Opt string | Plus "char \<Rightarrow> bool"

definition lit_matches :: "bool \<Rightarrow> string \<Rightarrow> string \<Rightarrow> bool" where
  "lit_matches ci l s =
     (length l \<le> length s
      \<and> (if ci then map toLowerCase l = map toLowerCase (take (length l) s)
          else l = take (length l) s))"

fun match_here :: "bool \<Rightarrow> atom list \<Rightarrow> string \<Rightarrow> bool" where
  "match_here ci [] s = True"
| "match_here ci (Lit l # r) s = (lit_matches ci l s \<and> match_here ci r (drop (length l) s))"
| "match_here ci (Opt l # r) s =
     ((lit_matches ci l s \<and> match_here ci r (drop (length l) s)) \<or> match_here ci r s)"
| "match_here ci (Plus P # r) [] = False"
| "match_here ci (Plus P # r) (c # cs) =
     (P c \<and> (match_here ci (Plus P # r) cs \<or> match_here ci r cs))"

definition regex_test :: "bool \<Rightarrow> atom list \<Rightarrow> string \<Rightarrow> bool" where
  "regex_test ci r s = (\<exists>i \<in> set [0 ..< Suc (length s)]. match_here ci r (drop i s))"

text \<open>\<^verbatim>\<open>s.replace(pat, rep)\<close> with a string pattern: the first occurrence only.\<close>

fun replace_first :: "string \<Rightarrow> string \<Rightarrow> string \<Rightarrow> string" where
  "replace_first pat rep [] = (if pat = [] then rep else [])"
| "replace_first pat rep (c # cs) =
     (if prefix pat (c # cs) then rep @ drop (length pat) (c # cs)
      else c # replace_first pat rep cs)"

section \<open>URL classification and normalization\<close>

text \<open>
  \<^verbatim>\<open>LABELS\<close> and the types \<^verbatim>\<open>FbLabel\<close> and \<^verbatim>\<open>FbSection\<close> are declared in files that
  are not part of the sources at hand; the labels and the sections are the names the
  program uses. The two host names \<^verbatim>\<open>MOBILE_HOST\<close> and \<^verbatim>\<open>DESKTOP_HOST\<close> come from the
  same missing file and are parameters of the functions that use them.
\<close>

datatype FbLabel = LISTING | PHOTO | POST | PAGE | SEARCH

datatype FbSection = Home | Posts | About | Reviews | Services

fun section_name :: "FbSection \<Rightarrow> string" where
  "section_name Home = ''home''"
| "section_name Posts = ''posts''"
| "section_name About = ''about''"
| "section_name Reviews = ''reviews''"
| "section_name Services = ''services''"

datatype filterParams = FBool bool | FArray "string list"

text \<open>For which keys the callback of \<^verbatim>\<open>normalizeToMobilePageUrl\<close> returns without deleting.\<close>

fun keep_param :: "filterParams \<Rightarrow> string \<Rightarrow> bool" where
  "keep_param (FArray ks) key = (key \<in> set ks)"
| "keep_param (FBool b) key = (\<not> b)"

definition normalizeToMobilePageUrl ::
  "string \<Rightarrow> string \<Rightarrow> filterParams \<Rightarrow> url_error + string" where
  "normalizeToMobilePageUrl MOBILE_HOST url filterParams =
     (case URL_new url of
        Inl e \<Rightarrow> Inl e
      | Inr parsedUrl \<Rightarrow>
         (let u1 = (if \<not> startsWith (pathname parsedUrl) ''/pg''
                    then set_pathname
                           (''/pg/'' @ join ''/'' (filter (\<lambda>s. s \<noteq> [])
                                                   (split_on CHR ''/'' (pathname parsedUrl))))
                           parsedUrl
                    else parsedUrl)
          in case (if hostname u1 \<noteq> MOBILE_HOST then set_hostname MOBILE_HOST u1 else Inr u1) of
               Inl e \<Rightarrow> Inl e
             | Inr u2 \<Rightarrow> Inr (toString (forEach_searchParams (keep_param filterParams) u2))))"

definition normalizeOutputPageUrl :: "string \<Rightarrow> string \<Rightarrow> url_error + string" where
  "normalizeOutputPageUrl DESKTOP_HOST url =
     (case URL_new url of
        Inl e \<Rightarrow> Inl e
      | Inr parsedUrl \<Rightarrow>
         (case set_hostname DESKTOP_HOST (set_protocol_https parsedUrl) of
            Inl e \<Rightarrow> Inl e
          | Inr u2 \<Rightarrow>
             (let u3 = forEach_searchParams (\<lambda>key. False) u2;
                  u4 = set_pathname (replace_first ''/pg/'' [] (pathname u3)) u3
              in Inr (toString u4))))"

text \<open>The character class \<^verbatim>\<open>[a-z0-9.\-%]\<close> under the flag \<^verbatim>\<open>i\<close>.\<close>

definition page_char :: "char \<Rightarrow> bool" where
  "page_char c =
     (is_lower c \<or> is_upper c \<or> is_digit c \<or> c = CHR ''.'' \<or> c = CHR ''-'' \<or> c = CHR ''%'')"

text \<open>What \<^verbatim>\<open>getUrlLabel\<close> does with the parsed URL.\<close>

definition label_of_parsed :: "url \<Rightarrow> url_error + FbLabel" where
  "label_of_parsed parsedUrl =
     (if str_includes (hostname parsedUrl) ''facebook.com''
      then (if startsWith (pathname parsedUrl) ''/biz/'' then Inr LISTING
            else if regex_test False [Lit ''/photos/a.'', Plus is_digit] (pathname parsedUrl)
              then Inr PHOTO
            else if regex_test False [Lit ''/posts/'', Plus is_digit] (pathname parsedUrl)
              then Inr POST
            else if regex_test True
                      [Lit ''/'', Opt ''pg'', Opt ''/'', Plus page_char, Opt ''/'']
                      (pathname parsedUrl)
              then Inr PAGE
            else Inl (InfoError ''Invalid Facebook url provided or could not be determined''
                        ''getUrlLabel''))
      else Inl (InfoError ''Invalid Facebook url provided or could not be determined''
                  ''getUrlLabel''))"

definition getUrlLabel :: "string \<Rightarrow> url_error + FbLabel" where
  "getUrlLabel url =
     (if url = [] then Inl (InfoError ''Invalid url provided'' ''getUrlLabel'')
      else case URL_new url of
        Inl e \<Rightarrow> Inl e
      | Inr parsedUrl \<Rightarrow> label_of_parsed parsedUrl)"

record subpage =
  useMobile :: bool
  task_url :: string
  task_section :: FbSection

definition default_pages :: "FbSection list" where
  "default_pages = [Posts, About, Reviews, Services]"

text \<open>\<^verbatim>\<open>xs.map(f)\<close> for an \<open>f\<close> that may throw: the first error ends the whole call.\<close>

fun map_result :: "('a \<Rightarrow> 'e + 'b) \<Rightarrow> 'a list \<Rightarrow> 'e + 'b list" where
  "map_result f [] = Inr []"
| "map_result f (x # xs) =
     (case f x of
        Inl e \<Rightarrow> Inl e
      | Inr y \<Rightarrow> (case map_result f xs of Inl e \<Rightarrow> Inl e | Inr ys \<Rightarrow> Inr (y # ys)))"

definition subpage_of :: "string \<Rightarrow> string \<Rightarrow> FbSection \<Rightarrow> url_error + subpage" where
  "subpage_of MOBILE_HOST base sub =
     (case URL_new base of
        Inl e \<Rightarrow> Inl e
      | Inr subUrl \<Rightarrow>
         (case set_hostname MOBILE_HOST
                 (set_pathname (pathname subUrl @ ''/'' @ section_name sub) subUrl) of
            Inl e \<Rightarrow> Inl e
          | Inr u \<Rightarrow> Inr \<lparr>useMobile = True, task_url = toString u, task_section = sub\<rparr>))"

definition generateSubpagesFromUrl ::
  "string \<Rightarrow> string \<Rightarrow> FbSection list \<Rightarrow> url_error + subpage list" where
  "generateSubpagesFromUrl MOBILE_HOST url pages =
     (case normalizeToMobilePageUrl MOBILE_HOST url (FBool True) of
        Inl e \<Rightarrow> Inl e
      | Inr mobile \<Rightarrow>
         (let base = join ''/'' (take 5 (split_on CHR ''/'' mobile))
          in case map_result (subpage_of MOBILE_HOST base) pages of
               Inl e \<Rightarrow> Inl e
             | Inr subs \<Rightarrow>
                 Inr (\<lparr>useMobile = True, task_url = base, task_section = Home\<rparr> # subs)))"

text \<open>The equations of these two functions recur without a pattern; they are used on demand.\<close>

declare decimal.simps [simp del] ndigits.simps [simp del]


section \<open>Properties of the time budget\<close>

text \<open>With the defaults of the two inputs, 15 and 3, the budget is 686 seconds.\<close>

lemma handlePageTimeoutSecs_defaults:
  "handlePageTimeoutSecs (Fin 15) (Fin 3) = (Fin 686, [])"
  by code_simp

text \<open>
  With 10000 comments the scaled value is 48600 seconds, which is more than the largest
  timeout in milliseconds; the budget is 35791 seconds and one warning is logged. An
  infinite \<^verbatim>\<open>maxPosts\<close> ends there as well.
\<close>

lemma handlePageTimeoutSecs_clamped:
  "handlePageTimeoutSecs (Fin 10000) (Fin 0)
     = (Fin 35791, [Warning ''maxPosts + maxPostComments parameter is too high''
                      (Fin 10000) (Fin 0) (Fin 48600) (Fin 2916000000)])
   \<and> handlePageTimeoutSecs (Fin 15) PosInf
     = (Fin 35791, [Warning ''maxPosts + maxPostComments parameter is too high''
                      (Fin 15) PosInf PosInf PosInf])"
  by code_simp

text \<open>
  Claim C8 says that the budget is always at least 600 seconds, and the comment on the
  source line reads \<^verbatim>\<open>minimum 600s\<close>. The sum of the two inputs is scaled and 600 is
  added; nothing bounds the result from below. With \<^verbatim>\<open>maxPostComments = 15\<close> and
  \<^verbatim>\<open>maxPosts = -200\<close> the code computes \<open>round (60 * (-185 * 0.08)) + 600 = -288\<close>
  and logs nothing.
\<close>

theorem handlePageTimeoutSecs_negative:
  "handlePageTimeoutSecs (Fin 15) (Fin (- 200)) = (Fin (- 288), [])"
  by code_simp

section \<open>Properties of \<^verbatim>\<open>convertDate\<close>\<close>

text \<open>
  Claim C10. For each of the falsy arguments \<^verbatim>\<open>undefined\<close>, \<^verbatim>\<open>null\<close>, \<^verbatim>\<open>0\<close> and
  the empty string, \<^verbatim>\<open>convertDate\<close> returns \<^verbatim>\<open>Infinity\<close> in number mode and the
  string \<^verbatim>\<open>2100-01-01T00:00:00.000Z\<close> in ISO mode; it does not fail, whatever the
  platform's date functions are.
\<close>

theorem convertDate_falsy:
  "v \<in> {DUndefined, DNull, DNumber 0, DString []} \<Longrightarrow>
     convertDate lib v False = Inr ResInfinity
     \<and> convertDate lib v True = Inr (ResString ''2100-01-01T00:00:00.000Z'')"
  by (auto simp: convertDate_def falsy_def)

theorem convertDate_falsy_witness:
  "DNumber 0 \<in> {DUndefined, DNull, DNumber 0, DString []}
   \<and> convertDate \<lparr>Date_parse = no_parse, toISOString = (\<lambda>t. []), toNumber = (\<lambda>s. None)\<rparr>
        (DNumber 0) False = Inr ResInfinity
   \<and> convertDate \<lparr>Date_parse = no_parse, toISOString = (\<lambda>t. []), toNumber = (\<lambda>s. None)\<rparr>
        (DNumber 0) True = Inr (ResString ''2100-01-01T00:00:00.000Z'')"
proof -
  have h: "DNumber 0 \<in> {DUndefined, DNull, DNumber 0, DString []}" by simp
  show ?thesis
    using h convertDate_falsy [OF h,
        of "\<lparr>Date_parse = no_parse, toISOString = (\<lambda>t. []), toNumber = (\<lambda>s. None)\<rparr>"]
    by simp
qed

section \<open>Properties of the sampler\<close>

lemma ratio_zero: "ratio 0 t \<in> {Fin 0, NaN}"
  by (cases t) (simp_all add: rnd_def)

lemma empty_threshold_positive: "\<not> dgt (Fin 0) empty_threshold"
  by code_simp

lemma ratio_zero_below: "\<not> dgt (ratio 0 t) empty_threshold"
  using ratio_zero [of t] empty_threshold_positive by auto

lemma positive_not_zero: "dgt t (Fin 0) \<Longrightarrow> t \<noteq> Fin 0"
  by auto

lemma inc_positive: "0 \<le> n \<Longrightarrow> 0 < inc n"
  by (simp add: inc_def)

lemma run_willCheckRange:
  "willCheckRange (foldl (counter_step lib) s cs) = willCheckRange s"
proof (induction cs arbitrary: s)
  case Nil show ?case by simp
next
  case (Cons c cs)
  have "willCheckRange (counter_step lib s c) = willCheckRange s"
    by (cases c) (auto simp: counter_empty_def counter_add_def counter_time_def Let_def
        split: option.splits)
  with Cons show ?case by simp
qed

text \<open>\<^verbatim>\<open>total\<close> only changes in \<^verbatim>\<open>add\<close>, which counts a call.\<close>

lemma step_calls:
  assumes "0 \<le> calls s" and "calls s = 0 \<longrightarrow> total s = Fin 0"
  shows "0 \<le> calls (counter_step lib s c)
         \<and> (calls (counter_step lib s c) = 0 \<longrightarrow> total (counter_step lib s c) = Fin 0)"
proof (cases c)
  case (CallEmpty b)
  with inc_positive [OF assms(1)] show ?thesis
    by (simp add: counter_empty_def Let_def)
next
  case (CallAdd v)
  with inc_positive [OF assms(1)] show ?thesis
    by (simp add: counter_add_def)
next
  case (CallTime v)
  with assms show ?thesis
    by (auto simp: counter_time_def Let_def split: option.splits)
qed

lemma run_calls:
  "0 \<le> calls s \<Longrightarrow> (calls s = 0 \<longrightarrow> total s = Fin 0) \<Longrightarrow>
   0 \<le> calls (foldl (counter_step lib) s cs)
   \<and> (calls (foldl (counter_step lib) s cs) = 0
        \<longrightarrow> total (foldl (counter_step lib) s cs) = Fin 0)"
proof (induction cs arbitrary: s)
  case Nil then show ?case by simp
next
  case (Cons c cs)
  from step_calls [OF Cons.prems, of lib c] Cons.IH [of "counter_step lib s c"]
  show ?case by simp
qed

lemma isOver_iff:
  assumes "0 \<le> calls s" and "calls s = 0 \<longrightarrow> total s = Fin 0"
  shows "isOver s =
     (dgt (total s) (Fin 0) \<and>
       ((willCheckRange s \<and> inRange s > 0
          \<and> dgt (dadd (ratio (outOfRange s) (total s)) (ratio (inRange s) (total s)))
                 range_threshold)
        \<or> dgt (ratio (empty' s) (total s)) empty_threshold))"
proof (cases "dgt (total s) (Fin 0)")
  case False
  then show ?thesis by (simp add: isOver_def)
next
  case True
  from positive_not_zero [OF True] assms have c: "calls s > 0"
    by (cases "calls s = 0") simp_all
  have e: "empty' s = 0 \<Longrightarrow> \<not> dgt (ratio (empty' s) (total s)) empty_threshold"
    using ratio_zero_below [of "total s"] by simp
  show ?thesis
    using True c e by (auto simp: isOver_def)
qed

lemma range_ratio_96:
  "dgt (dadd (ratio 80 (Fin 100)) (ratio 16 (Fin 100))) range_threshold"
  by code_simp

lemma range_ratio_80:
  "\<not> dgt (dadd (ratio 30 (Fin 100)) (ratio 50 (Fin 100))) range_threshold"
  by code_simp

text \<open>
  Claim C1, as the code has it. After any sequence of calls on a fresh counter,
  \<^verbatim>\<open>isOver()\<close> is true exactly when \<^verbatim>\<open>total > 0\<close> and either both bounds of the
  window are set, at least one item was in range and the sum of the two quotients
  \<^verbatim>\<open>(outOfRange / total) + (inRange / total)\<close>, each step rounded as a double, is
  above the double \<^verbatim>\<open>0.95\<close>, or the quotient \<^verbatim>\<open>empty / total\<close> is above the double
  \<^verbatim>\<open>0.8\<close>. With both bounds set, \<open>total = 100\<close>, \<open>outOfRange = 80\<close> and
  \<open>inRange = 16\<close> give true. In every state, a total that is not greater than 0 gives
  false, and so do \<open>total = 100\<close>, \<open>inRange = 50\<close>, \<open>outOfRange = 30\<close> when no step
  was empty.
\<close>

theorem isOver_sampler:
  "(let s = counter_run lib mm cs in
      (isOver s =
        (dgt (total s) (Fin 0) \<and>
          ((maxDate mm \<noteq> None \<and> minDate mm \<noteq> None \<and> inRange s > 0
             \<and> dgt (dadd (ratio (outOfRange s) (total s)) (ratio (inRange s) (total s)))
                    range_threshold)
           \<or> dgt (ratio (empty' s) (total s)) empty_threshold)))
      \<and> (maxDate mm \<noteq> None \<and> minDate mm \<noteq> None \<and> total s = Fin 100
           \<and> outOfRange s = 80 \<and> inRange s = 16 \<longrightarrow> isOver s))
   \<and> (\<not> dgt (total st) (Fin 0) \<longrightarrow> \<not> isOver st)
   \<and> (total st = Fin 100 \<and> inRange st = 50 \<and> outOfRange st = 30 \<and> empty' st = 0
        \<longrightarrow> \<not> isOver st)"
proof -
  let ?s = "counter_run lib mm cs"
  have inv: "0 \<le> calls ?s \<and> (calls ?s = 0 \<longrightarrow> total ?s = Fin 0)"
    unfolding counter_run_def by (rule run_calls) (simp_all add: dateRangeItemCounter_def)
  have w: "willCheckRange ?s = (maxDate mm \<noteq> None \<and> minDate mm \<noteq> None)"
    unfolding counter_run_def by (simp add: run_willCheckRange dateRangeItemCounter_def)
  have a: "isOver ?s =
        (dgt (total ?s) (Fin 0) \<and>
          ((maxDate mm \<noteq> None \<and> minDate mm \<noteq> None \<and> inRange ?s > 0
             \<and> dgt (dadd (ratio (outOfRange ?s) (total ?s)) (ratio (inRange ?s) (total ?s)))
                    range_threshold)
           \<or> dgt (ratio (empty' ?s) (total ?s)) empty_threshold))"
    using isOver_iff [of ?s] inv w by simp
  have b: "\<not> dgt (total st) (Fin 0) \<longrightarrow> \<not> isOver st"
    by (simp add: isOver_def)
  have c: "maxDate mm \<noteq> None \<and> minDate mm \<noteq> None \<and> total ?s = Fin 100
           \<and> outOfRange ?s = 80 \<and> inRange ?s = 16 \<longrightarrow> isOver ?s"
  proof
    assume h: "maxDate mm \<noteq> None \<and> minDate mm \<noteq> None \<and> total ?s = Fin 100
           \<and> outOfRange ?s = 80 \<and> inRange ?s = 16"
    have "dgt (dadd (ratio (outOfRange ?s) (total ?s)) (ratio (inRange ?s) (total ?s)))
            range_threshold"
      using h range_ratio_96 by simp
    moreover have "dgt (total ?s) (Fin 0)" using h by simp
    moreover have "inRange ?s > 0" using h by simp
    ultimately show "isOver ?s" using a h by blast
  qed
  have d: "total st = Fin 100 \<and> inRange st = 50 \<and> outOfRange st = 30 \<and> empty' st = 0
        \<longrightarrow> \<not> isOver st"
    using range_ratio_80 by (simp add: isOver_def)
  from a b c d show ?thesis by (simp add: Let_def)
qed

theorem isOver_sampler_witness:
  "(maxDate sample_window \<noteq> None \<and> minDate sample_window \<noteq> None
      \<and> total session_mostly_out = Fin 100 \<and> outOfRange session_mostly_out = 80
      \<and> inRange session_mostly_out = 16)
   \<and> isOver session_mostly_out
   \<and> (total session_mixed = Fin 100 \<and> inRange session_mixed = 50
      \<and> outOfRange session_mixed = 30 \<and> empty' session_mixed = 0)
   \<and> \<not> isOver session_mixed
   \<and> \<not> dgt (total (dateRangeItemCounter sample_window)) (Fin 0)
   \<and> \<not> isOver (dateRangeItemCounter sample_window)"
proof -
  have h1: "maxDate sample_window \<noteq> None \<and> minDate sample_window \<noteq> None
      \<and> total session_mostly_out = Fin 100 \<and> outOfRange session_mostly_out = 80
      \<and> inRange session_mostly_out = 16"
    by code_simp
  have h2: "total session_mixed = Fin 100 \<and> inRange session_mixed = 50
      \<and> outOfRange session_mixed = 30 \<and> empty' session_mixed = 0"
    by code_simp
  have h3: "\<not> dgt (total (dateRangeItemCounter sample_window)) (Fin 0)"
    by code_simp
  note t1 = isOver_sampler [of "sample_lib 0" sample_window
      "CallAdd (Fin 100) # replicate 80 (CallTime (TNumber 5000))
         @ replicate 16 (CallTime (TNumber 1500))" session_mixed,
      folded session_mostly_out_def]
  note t2 = isOver_sampler [of "sample_lib 0" sample_window "[]"
      "dateRangeItemCounter sample_window"]
  have r1: "isOver session_mostly_out"
    using t1 h1 by (simp only: Let_def) blast
  have r2: "\<not> isOver session_mixed"
    using t1 h2 by (simp only: Let_def) blast
  have r3: "\<not> isOver (dateRangeItemCounter sample_window)"
    using t2 h3 by (simp only: Let_def) blast
  from h1 h2 h3 r1 r2 r3 show ?thesis by blast
qed

text \<open>
  Claim C1 as stated makes \<open>(outOfRange + inRange) / total > 0.95\<close> with both bounds set
  enough, and necessary when no step was empty. After \<^verbatim>\<open>add(100)\<close> and 96 timestamps
  outside the window the ratio is 0.96 and both bounds are set, but no item was in range
  and \<^verbatim>\<open>isOver()\<close> is false. After \<^verbatim>\<open>add(20)\<close>, 18 timestamps outside the window and
  one inside, the ratio is \<open>19 / 20\<close>, which is not above 0.95, as a fraction or as a
  double, and no step was empty; but the code adds the doubles \<open>18 / 20\<close> and \<open>1 / 20\<close>,
  the sum is \<open>0.9500000000000001\<close>, and \<^verbatim>\<open>isOver()\<close> is true.
\<close>

theorem isOver_counterexample:
  "willCheckRange session_out_only
   \<and> total session_out_only = Fin 100
   \<and> of_int (outOfRange session_out_only + inRange session_out_only) / 100 > (95 / 100 :: rat)
   \<and> dgt (ratio (outOfRange session_out_only + inRange session_out_only)
            (total session_out_only)) range_threshold
   \<and> \<not> isOver session_out_only
   \<and> willCheckRange session_rounding
   \<and> total session_rounding = Fin 20
   \<and> \<not> of_int (outOfRange session_rounding + inRange session_rounding) / 20
          > (95 / 100 :: rat)
   \<and> \<not> dgt (ratio (outOfRange session_rounding + inRange session_rounding)
              (total session_rounding)) range_threshold
   \<and> \<not> dgt (ratio (empty' session_rounding) (total session_rounding)) empty_threshold
   \<and> isOver session_rounding"
  by code_simp

section \<open>Properties of the date window\<close>





text \<open>
  Claim C6. When both bounds resolve to instants and the max bound is before the min
  bound, \<^verbatim>\<open>minMaxDates\<close> throws instead of returning a window. A window that was
  returned holds the two resolved bounds, and when both are instants the min bound is
  not after the max bound, so the condition of the error cannot arise later;
  \<^verbatim>\<open>compare\<close> has no throwing branch and is a total function into the booleans.
\<close>

theorem minMaxDates_empty_window:
  "(parseTimeUnit lib mn = Some (Moment a) \<and> parseTimeUnit lib mx = Some (Moment b) \<and> b < a
      \<longrightarrow> minMaxDates lib mn mx = Inl (Error ''Minimum date needs to be less than max date''))
   \<and> (minMaxDates lib mn mx = Inr w \<longrightarrow>
        minDate w = parseTimeUnit lib mn \<and> maxDate w = parseTimeUnit lib mx
        \<and> (\<forall>x y. minDate w = Some (Moment x) \<and> maxDate w = Some (Moment y) \<longrightarrow> x \<le> y))"
  by (auto simp: minMaxDates_def Let_def js_lt_def split: if_splits)

theorem minMaxDates_empty_window_witness:
  "(parseTimeUnit (sample_lib 1700000000000) (TString ''1 day'') = Some (Moment 1699913600000)
     \<and> parseTimeUnit (sample_lib 1700000000000) (TString ''2 days'') = Some (Moment 1699827200000)
     \<and> (1699827200000 :: int) < 1699913600000)
   \<and> minMaxDates (sample_lib 1700000000000) (TString ''1 day'') (TString ''2 days'')
       = Inl (Error ''Minimum date needs to be less than max date'')
   \<and> minMaxDates (sample_lib 1700000000000) (TString ''2 days'') (TString ''1 day'')
       = Inr two_days_window
   \<and> minDate two_days_window = Some (Moment 1699827200000)
   \<and> maxDate two_days_window = Some (Moment 1699913600000)"
proof -
  let ?lib = "sample_lib 1700000000000"
  have h1: "parseTimeUnit ?lib (TString ''1 day'') = Some (Moment 1699913600000)
     \<and> parseTimeUnit ?lib (TString ''2 days'') = Some (Moment 1699827200000)
     \<and> (1699827200000 :: int) < 1699913600000"
    by code_simp
  have h2: "minMaxDates ?lib (TString ''2 days'') (TString ''1 day'') = Inr two_days_window"
    by code_simp
  show ?thesis
    using h1 h2
      minMaxDates_empty_window [of ?lib "TString ''1 day''" 1699913600000
        "TString ''2 days''" 1699827200000 two_days_window]
      minMaxDates_empty_window [of ?lib "TString ''2 days''" 1699827200000
        "TString ''1 day''" 1699913600000 two_days_window]
    by simp
qed

section \<open>Change detection\<close>

text \<open>
  Claim C5 describes a mark per signal. The code has one \<^verbatim>\<open>lastCount\<close> for both
  histograms. With the samples \<open>(scrollY, scrollHeight) = (100, 1000)\<close> and then
  \<open>(200, 2000)\<close>, the check of the scroll offset raises the shared mark to 1 in the
  second turn, and the check of the height, whose history has grown from 0 to 1 and does
  not hold 2000, then answers false. With a mark of its own the height is reported as
  changed, as the scroll offset is.
\<close>

theorem isChanging_shared_mark:
  "map (map_option snd)
       (fst (scrollUntil [plain_turn 100 1000, plain_turn 200 2000] scroll_init))
     = [Some False, Some False]
   \<and> spec_changes [Some 1000, Some 2000] signal_init = [False, True]
   \<and> map (map_option fst)
       (fst (scrollUntil [plain_turn 100 1000, plain_turn 200 2000] scroll_init))
     = [Some False, Some True]
   \<and> spec_changes [Some 100, Some 200] signal_init = [False, True]"
  by code_simp

section \<open>Evaluating the URL functions\<close>

lemmas char_eval = code_in_def is_digit_def is_upper_def is_lower_def toLowerCase_def is_hex_def
  hex_val_def hex_digit_def percent_encode_def is_tab_or_newline_def in_path_encode_set_def
  url_char_def ends_authority_def ends_path_def digit_val_def nat_of_digits_def

lemmas url_eval = URL_new_def strip_scheme_def parse_authority_def make_url_def parse_port_def
  parse_tail_def parse_fragment_def host_supported_def label_supported_def default_port_def
  parse_path_def end_segment_def is_single_dot_def is_double_dot_def
  pathname_def hostname_def toString_def set_protocol_https_def set_hostname_def set_pathname_def
  searchParams_def parse_query_def form_decode_def form_encode_def form_encode_char_def
  serialize_query_def forEach_searchParams_def forEach_delete.simps decimal.simps
  startsWith_def str_includes_def c0_or_space_def url_input_def

lemmas regex_eval = regex_test_def lit_matches_def page_char_def

section \<open>Properties of \<^verbatim>\<open>normalizeOutputPageUrl\<close>\<close>

text \<open>
  Claim C3 says that the result has no query parameters. The callback of
  \<^verbatim>\<open>searchParams.forEach\<close> deletes the key it is called with, and the walk then goes
  on at the next index of the list that has just become shorter: with two parameters
  the second one is never visited. The comment in the source reads
  \<^verbatim>\<open>delete all query strings, like refsrc, ref\<close>. For a page URL with the two
  parameters \<^verbatim>\<open>ref\<close> and \<^verbatim>\<open>refsrc\<close> the result keeps \<^verbatim>\<open>refsrc\<close>.
\<close>

theorem normalizeOutputPageUrl_keeps_query:
  "normalizeOutputPageUrl ''www.facebook.com''
      ''https://m.facebook.com/pg/nasa?ref=page_internal&refsrc=x''
     = Inr ''https://www.facebook.com/nasa?refsrc=x''"
  by (simp add: normalizeOutputPageUrl_def url_eval char_eval)

text \<open>
  Claim C2 says that normalizing twice is normalizing once. On the same URL the first
  call leaves \<^verbatim>\<open>refsrc\<close> in place and the second call removes it, so the two results
  differ.
\<close>

theorem normalizeOutputPageUrl_twice:
  "normalizeOutputPageUrl ''www.facebook.com''
      ''https://m.facebook.com/pg/nasa?ref=page_internal&refsrc=x''
     = Inr ''https://www.facebook.com/nasa?refsrc=x''
   \<and> normalizeOutputPageUrl ''www.facebook.com'' ''https://www.facebook.com/nasa?refsrc=x''
     = Inr ''https://www.facebook.com/nasa''"
  by (simp add: normalizeOutputPageUrl_def url_eval char_eval)

section \<open>Properties of \<^verbatim>\<open>getUrlLabel\<close>\<close>

text \<open>
  Whatever URL the parser returns, the rest of the function returns one of the four
  labels Listing, Photo, Post and Page, or throws an \<^verbatim>\<open>InfoError\<close>; no branch
  returns Search.
\<close>

lemma label_of_parsed_cases:
  "label_of_parsed u \<in> {Inr LISTING, Inr PHOTO, Inr POST, Inr PAGE,
      Inl (InfoError ''Invalid Facebook url provided or could not be determined''
             ''getUrlLabel'')}"
  by (simp add: label_of_parsed_def)

lemma getUrlLabel_never_search: "getUrlLabel url \<noteq> Inr SEARCH"
proof (cases "URL_new url")
  case (Inl e)
  then show ?thesis by (simp add: getUrlLabel_def)
next
  case (Inr u)
  with label_of_parsed_cases [of u] show ?thesis
    by (auto simp: getUrlLabel_def)
qed

lemma getUrlLabel_page:
  "getUrlLabel ''https://www.facebook.com/nasa'' = Inr PAGE"
  by (simp add: getUrlLabel_def label_of_parsed_def url_eval char_eval regex_eval)

lemma getUrlLabel_post:
  "getUrlLabel ''https://www.facebook.com/nasa/posts/123'' = Inr POST"
  by (simp add: getUrlLabel_def label_of_parsed_def url_eval char_eval regex_eval)

lemma getUrlLabel_other_host:
  "getUrlLabel ''https://www.example.com/nasa''
     = Inl (InfoError ''Invalid Facebook url provided or could not be determined''
              ''getUrlLabel'')"
  by (simp add: getUrlLabel_def label_of_parsed_def url_eval char_eval regex_eval)

text \<open>
  Claim C9 says that \<^verbatim>\<open>getUrlLabel\<close> returns a label or throws an \<^verbatim>\<open>InfoError\<close>,
  and the comment of the function announces \<^verbatim>\<open>@throws {InfoError}\<close>. The empty string
  is refused with an \<^verbatim>\<open>InfoError\<close>, but \<^verbatim>\<open>new URL(url)\<close> is called outside any
  \<^verbatim>\<open>try\<close>: for \<^verbatim>\<open>facebook.com/nasa\<close>, a page address written without its scheme,
  the \<^verbatim>\<open>TypeError\<close> of the parser leaves the function.
\<close>

theorem getUrlLabel_TypeError:
  "getUrlLabel ''facebook.com/nasa'' = Inl TypeError
   \<and> getUrlLabel [] = Inl (InfoError ''Invalid url provided'' ''getUrlLabel'')"
  by (simp add: getUrlLabel_def URL_new_def)

section \<open>Properties of \<^verbatim>\<open>generateSubpagesFromUrl\<close>\<close>

text \<open>
  The three ways of filtering in \<^verbatim>\<open>normalizeToMobilePageUrl\<close>: a list of names to
  keep, \<^verbatim>\<open>false\<close> for keeping everything, and \<^verbatim>\<open>true\<close>, under which the first
  parameter is deleted and the second, which takes its place, is not visited.
\<close>

lemma normalizeToMobilePageUrl_filter:
  "normalizeToMobilePageUrl ''m.facebook.com'' ''https://www.facebook.com/nasa?b=2&a=1''
      (FArray [''b'']) = Inr ''https://m.facebook.com/pg/nasa?b=2''
   \<and> normalizeToMobilePageUrl ''m.facebook.com'' ''https://www.facebook.com/nasa?b=2&a=1''
      (FBool False) = Inr ''https://m.facebook.com/pg/nasa?b=2&a=1''
   \<and> normalizeToMobilePageUrl ''m.facebook.com'' ''https://www.facebook.com/nasa?b=2&a=1''
      (FBool True) = Inr ''https://m.facebook.com/pg/nasa?a=1''"
  by (simp add: normalizeToMobilePageUrl_def url_eval char_eval)

text \<open>For a page URL without a query the plan is the base and the four sections.\<close>

lemma generateSubpagesFromUrl_plain:
  "generateSubpagesFromUrl ''m.facebook.com'' ''https://www.facebook.com/nasa'' default_pages
     = Inr [\<lparr>useMobile = True, task_url = ''https://m.facebook.com/pg/nasa'',
               task_section = Home\<rparr>,
            \<lparr>useMobile = True, task_url = ''https://m.facebook.com/pg/nasa/posts'',
               task_section = Posts\<rparr>,
            \<lparr>useMobile = True, task_url = ''https://m.facebook.com/pg/nasa/about'',
               task_section = About\<rparr>,
            \<lparr>useMobile = True, task_url = ''https://m.facebook.com/pg/nasa/reviews'',
               task_section = Reviews\<rparr>,
            \<lparr>useMobile = True, task_url = ''https://m.facebook.com/pg/nasa/services'',
               task_section = Services\<rparr>]"
  by (simp add: generateSubpagesFromUrl_def normalizeToMobilePageUrl_def subpage_of_def
      default_pages_def url_eval char_eval)

text \<open>
  Claim C7 says that every sub-task's URL is the base followed by the section.
  \<^verbatim>\<open>generateSubpagesFromUrl\<close> calls \<^verbatim>\<open>normalizeToMobilePageUrl(url, true)\<close>, whose
  comment reads \<^verbatim>\<open>Setting to true for removing everything\<close>, and the same walk of
  \<^verbatim>\<open>searchParams.forEach\<close> with a deleting callback leaves every second parameter in
  place. For \<^verbatim>\<open>https://www.facebook.com/nasa?a=1&b=2\<close> the base keeps \<^verbatim>\<open>?b=2\<close>,
  and each section lands in the path before the query: the URL of the posts task is
  \<^verbatim>\<open>https://m.facebook.com/pg/nasa/posts?b=2\<close>, not the base followed by
  \<^verbatim>\<open>/posts\<close>. The number and order of the tasks, the host and the device mode are as
  claimed.
\<close>

theorem generateSubpagesFromUrl_keeps_query:
  "generateSubpagesFromUrl ''m.facebook.com'' ''https://www.facebook.com/nasa?a=1&b=2''
      default_pages
     = Inr [\<lparr>useMobile = True, task_url = ''https://m.facebook.com/pg/nasa?b=2'',
               task_section = Home\<rparr>,
            \<lparr>useMobile = True, task_url = ''https://m.facebook.com/pg/nasa/posts?b=2'',
               task_section = Posts\<rparr>,
            \<lparr>useMobile = True, task_url = ''https://m.facebook.com/pg/nasa/about?b=2'',
               task_section = About\<rparr>,
            \<lparr>useMobile = True, task_url = ''https://m.facebook.com/pg/nasa/reviews?b=2'',
               task_section = Reviews\<rparr>,
            \<lparr>useMobile = True, task_url = ''https://m.facebook.com/pg/nasa/services?b=2'',
               task_section = Services\<rparr>]"
  by (simp add: generateSubpagesFromUrl_def normalizeToMobilePageUrl_def subpage_of_def
      default_pages_def url_eval char_eval)

end
